theory Spec2Isabelle
  imports Main "HOL-Library.Sublist" "HOL-Library.Char_ord" "HOL-Library.List_Lexorder"
begin

section \<open>Python values used by WebSentry\<close>

text \<open>
  Strings are lists of characters. A \<^typ>\<open>char\<close> stands for one code point below 256;
  on these code points \<open>py_lower\<close> and \<open>py_strip\<close> below agree with Python's
  \<^verbatim>\<open>str.lower\<close> and \<^verbatim>\<open>str.strip\<close>. The order on strings (from
  \<open>Char_ord\<close> and \<open>List_Lexorder\<close>) is the lexicographic order on code points, which
  is the order Python's \<^verbatim>\<open>sorted\<close> uses on \<^verbatim>\<open>str\<close>.

  A \<^verbatim>\<open>dict\<close> with string keys and string values is an association list in
  insertion order; a well-formed dict has distinct keys.
\<close>

type_synonym dict = "(string \<times> string) list"

definition dict_contains :: "string \<Rightarrow> dict \<Rightarrow> bool" where
  \<comment> \<open>\<^verbatim>\<open>k in d\<close>: exact (case-sensitive) key comparison\<close>
  "dict_contains k d = (map_of d k \<noteq> None)"

definition dict_get :: "dict \<Rightarrow> string \<Rightarrow> string option" where
  \<comment> \<open>\<^verbatim>\<open>d.get(k)\<close>; \<open>None\<close> is Python's \<^verbatim>\<open>None\<close>\<close>
  "dict_get d k = map_of d k"

definition dict_get_default :: "dict \<Rightarrow> string \<Rightarrow> string \<Rightarrow> string" where
  \<comment> \<open>\<^verbatim>\<open>d.get(k, default)\<close>\<close>
  "dict_get_default d k dflt = (case map_of d k of None \<Rightarrow> dflt | Some v \<Rightarrow> v)"

definition py_format :: "string option \<Rightarrow> string" where
  \<comment> \<open>how an f-string renders a value that is a \<^verbatim>\<open>str\<close> or \<^verbatim>\<open>None\<close>\<close>
  "py_format v = (case v of None \<Rightarrow> ''None'' | Some s \<Rightarrow> s)"

fun str_nat :: "nat \<Rightarrow> string" where
  "str_nat n = (if n < 10 then [''0123456789'' ! n]
                else str_nat (n div 10) @ [''0123456789'' ! (n mod 10)])"

declare str_nat.simps [simp del]

definition str_int :: "int \<Rightarrow> string" where
  \<comment> \<open>\<^verbatim>\<open>str(i)\<close> for a Python int\<close>
  "str_int i = (if i < 0 then ''-'' @ str_nat (nat (- i)) else str_nat (nat i))"

definition py_isspace :: "char \<Rightarrow> bool" where
  \<comment> \<open>\<^verbatim>\<open>str.isspace\<close> on one code point below 256\<close>
  "py_isspace c = (let n = (of_char c :: nat) in
     (9 \<le> n \<and> n \<le> 13) \<or> (28 \<le> n \<and> n \<le> 32) \<or> n = 133 \<or> n = 160)"

definition py_strip :: "string \<Rightarrow> string" where
  \<comment> \<open>\<^verbatim>\<open>s.strip()\<close>\<close>
  "py_strip s = rev (dropWhile py_isspace (rev (dropWhile py_isspace s)))"

definition py_lower_char :: "char \<Rightarrow> char" where
  "py_lower_char c = (let n = (of_char c :: nat) in
     if (65 \<le> n \<and> n \<le> 90) \<or> (192 \<le> n \<and> n \<le> 222 \<and> n \<noteq> 215)
     then char_of (n + 32) else c)"

definition py_lower :: "string \<Rightarrow> string" where
  \<comment> \<open>\<^verbatim>\<open>s.lower()\<close>\<close>
  "py_lower s = map py_lower_char s"

fun join :: "string \<Rightarrow> string list \<Rightarrow> string" where
  \<comment> \<open>\<^verbatim>\<open>sep.join(xs)\<close>\<close>
  "join sep [] = []"
| "join sep [x] = x"
| "join sep (x # y # ys) = x @ sep @ join sep (y # ys)"

section \<open>Rule engine (cli.py)\<close>

text \<open>
  \<^verbatim>\<open>run_rule_based_checks(headers)\<close> appends to a local list; the list is threaded
  through the three \<^verbatim>\<open>if\<close> statements in source order. Each finding is the dict
  literal of the source, with its keys in the order written there.
\<close>

definition csp_finding :: dict where
  "csp_finding =
     [(''title'', ''Missing Content-Security-Policy header''),
      (''severity'', ''Medium''),
      (''evidence'', ''No Content-Security-Policy header present in response''),
      (''mitigation'', ''Add a strict Content-Security-Policy header to reduce XSS risk'')]"

definition xfo_finding :: dict where
  "xfo_finding =
     [(''title'', ''Missing X-Frame-Options header''),
      (''severity'', ''Low''),
      (''evidence'', ''No X-Frame-Options header present in response''),
      (''mitigation'', ''Add X-Frame-Options or frame-ancestors to prevent clickjacking'')]"

definition server_finding :: "dict \<Rightarrow> dict" where
  "server_finding headers =
     [(''title'', ''Server version disclosure''),
      (''severity'', ''Low''),
      (''evidence'', ''Server header present: '' @ py_format (dict_get headers ''server'')),
      (''mitigation'', ''Disable or obfuscate server version headers'')]"

definition run_rule_based_checks :: "dict \<Rightarrow> dict list" where
  "run_rule_based_checks headers =
     (let findings = [];
          findings = (if \<not> dict_contains ''content-security-policy'' headers
                      then findings @ [csp_finding] else findings);
          findings = (if \<not> dict_contains ''x-frame-options'' headers
                      then findings @ [xfo_finding] else findings);
          findings = (if dict_contains ''server'' headers
                      then findings @ [server_finding headers] else findings)
      in findings)"

section \<open>Summarizer (llm/summary.py)\<close>

type_synonym environ = "string \<rightharpoonup> string"

definition getenv :: "environ \<Rightarrow> string \<Rightarrow> string \<Rightarrow> string" where
  \<comment> \<open>\<^verbatim>\<open>os.getenv(key, default)\<close>\<close>
  "getenv env key dflt = (case env key of None \<Rightarrow> dflt | Some v \<Rightarrow> v)"

definition py_bool :: "string option \<Rightarrow> bool" where
  \<comment> \<open>truthiness of a value that is a \<^verbatim>\<open>str\<close> or \<^verbatim>\<open>None\<close>\<close>
  "py_bool v = (case v of None \<Rightarrow> False | Some s \<Rightarrow> s \<noteq> [])"

definition llm_enabled :: "environ \<Rightarrow> bool" where
  "llm_enabled env =
     (py_lower (getenv env ''WEBSENTRY_LLM_ENABLED'' ''false'') = ''true''
      \<and> py_bool (env ''OPENAI_API_KEY''))"

definition count_severity :: "string \<Rightarrow> dict list \<Rightarrow> int" where
  \<comment> \<open>\<^verbatim>\<open>sum(1 for f in findings if f.get("severity") == sev)\<close>\<close>
  "count_severity sev findings =
     sum_list (map (\<lambda>f. 1) (filter (\<lambda>f. dict_get f ''severity'' = Some sev) findings))"

definition posture_priority :: "int \<Rightarrow> int \<Rightarrow> string \<times> string" where
  \<comment> \<open>the \<^verbatim>\<open>if high > 0 / elif med > 0 / else\<close> chain, giving (posture, priority)\<close>
  "posture_priority high med =
     (if high > 0 then
        (''elevated risk'',
         ''address High severity issues immediately, followed by Medium and Low findings'')
      else if med > 0 then
        (''moderate risk'',
         ''remediate Medium severity issues first, then address Low severity hardening gaps'')
      else
        (''low-to-moderate risk'',
         ''resolve Low severity configuration and hardening issues''))"

definition rule_based_executive_summary :: "string \<Rightarrow> string \<Rightarrow> dict list \<Rightarrow> string" where
  "rule_based_executive_summary url title findings =
     (let high = count_severity ''High'' findings;
          med = count_severity ''Medium'' findings;
          low = count_severity ''Low'' findings
      in if findings = [] then
           ''A lightweight security review of '' @ url @ '' ('' @ title @ '') did not identify ''
           @ ''obvious baseline security misconfigurations during limited automated checks. ''
           @ ''This does not guarantee the application is secure, and deeper authenticated ''
           @ ''testing may still be required.''
         else
           let (posture, priority) = posture_priority high med
           in ''A lightweight security review of '' @ url @ '' ('' @ title @ '') identified ''
              @ str_int (int (length findings)) @ '' issue(s): ''
              @ str_int high @ '' High, '' @ str_int med @ '' Medium, and '' @ str_int low
              @ '' Low. Overall, the application presents a '' @ posture @ '' ''
              @ ''security posture driven primarily by configuration and security header gaps. ''
              @ ''It is recommended to '' @ priority @ '' and re-test to validate remediation.'')"

text \<open>
  The external summarisation service and Python's builtin parsers are collaborators, not
  code of this repository. They are passed in as a record: each operation either raises
  (\<open>Inl\<close>, an exception derived from \<^verbatim>\<open>Exception\<close>, named by its class) or returns.
  \<open>load_client\<close> is \<^verbatim>\<open>from openai import OpenAI; client = OpenAI()\<close>;
  \<open>create_content\<close> is \<^verbatim>\<open>client.chat.completions.create(...)\<close> followed by
  \<^verbatim>\<open>resp.choices[0].message.content\<close>, whose value is a string or \<^verbatim>\<open>None\<close>.
  The type \<open>'f\<close> is Python's \<^verbatim>\<open>float\<close>, which is only passed through.
\<close>

datatype exn = Exception string

record 'f chat_request =
  model :: string
  messages :: "dict list"
  max_tokens :: int
  temperature :: 'f

record 'f llm_world =
  load_client :: "exn + unit"
  py_int :: "string \<Rightarrow> exn + int"
  py_float :: "string \<Rightarrow> exn + 'f"
  create_content :: "'f chat_request \<Rightarrow> exn + string option"

definition py_or_empty :: "string option \<Rightarrow> string" where
  \<comment> \<open>\<^verbatim>\<open>(content or "")\<close>\<close>
  "py_or_empty c = (if py_bool c then py_format c else [])"

definition user_prompt :: "string \<Rightarrow> string \<Rightarrow> dict list \<Rightarrow> string" where
  "user_prompt url title findings =
     (let high = count_severity ''High'' findings;
          med = count_severity ''Medium'' findings;
          low = count_severity ''Low'' findings;
          top_titles = take 8 (map (\<lambda>f. dict_get_default f ''title'' [])
                                   (filter (\<lambda>f. py_bool (dict_get f ''title'')) findings))
      in ''\<newline>Write ONE concise executive summary paragraph for a web application security review.\<newline>''
         @ ''\<newline>Target URL: '' @ url
         @ ''\<newline>Page title: '' @ title @ ''\<newline>''
         @ ''\<newline>Findings count:''
         @ ''\<newline>High='' @ str_int high @ '', Medium='' @ str_int med @ '', Low='' @ str_int low
         @ ''\<newline>''
         @ ''\<newline>Key issues:\<newline>''
         @ (if top_titles \<noteq> [] then join '', '' top_titles else ''No issues detected'')
         @ ''\<newline>''
         @ ''\<newline>Requirements:''
         @ ''\<newline>- One paragraph only''
         @ ''\<newline>- Non-technical, executive-friendly language''
         @ ''\<newline>- State overall risk level''
         @ ''\<newline>- Clearly state what should be prioritized first''
         @ ''\<newline>- No bullet points\<newline>'')"

definition chat_request_of ::
  "environ \<Rightarrow> string \<Rightarrow> string \<Rightarrow> dict list \<Rightarrow> int \<Rightarrow> 'f \<Rightarrow> 'f chat_request" where
  \<comment> \<open>the keyword arguments of \<^verbatim>\<open>client.chat.completions.create\<close>\<close>
  "chat_request_of env url title findings mt temp =
     \<lparr> model = getenv env ''WEBSENTRY_LLM_MODEL'' ''gpt-4o-mini'',
       messages =
         [[(''role'', ''system''),
           (''content'', ''You write concise executive security summaries.'')],
          [(''role'', ''user''),
           (''content'', py_strip (user_prompt url title findings))]],
       max_tokens = mt,
       temperature = temp \<rparr>"

text \<open>
  The body of the \<^verbatim>\<open>try\<close> block. It returns what the block returns or the exception
  it raises, together with the list of requests sent to the external service (empty when
  an exception is raised before the call is made).
\<close>

definition llm_attempt ::
  "'f llm_world \<Rightarrow> environ \<Rightarrow> string \<Rightarrow> string \<Rightarrow> dict list \<Rightarrow> string
     \<Rightarrow> (exn + string) \<times> 'f chat_request list" where
  "llm_attempt W env url title findings fallback =
     (case load_client W of
        Inl e \<Rightarrow> (Inl e, [])
      | Inr _ \<Rightarrow>
         (case py_int W (getenv env ''WEBSENTRY_LLM_MAX_TOKENS'' ''140'') of
            Inl e \<Rightarrow> (Inl e, [])
          | Inr mt \<Rightarrow>
             (case py_float W (getenv env ''WEBSENTRY_LLM_TEMPERATURE'' ''0.3'') of
                Inl e \<Rightarrow> (Inl e, [])
              | Inr temp \<Rightarrow>
                 (let req = chat_request_of env url title findings mt temp
                  in case create_content W req of
                       Inl e \<Rightarrow> (Inl e, [req])
                     | Inr content \<Rightarrow>
                        (let text = py_strip (py_or_empty content)
                         in (Inr (if text \<noteq> [] then text else fallback), [req]))))))"

definition generate_executive_summary ::
  "'f llm_world \<Rightarrow> environ \<Rightarrow> string \<Rightarrow> string \<Rightarrow> dict list
     \<Rightarrow> (exn + string) \<times> 'f chat_request list" where
  "generate_executive_summary W env url title findings =
     (let fallback = rule_based_executive_summary url title findings
      in if \<not> llm_enabled env then (Inr fallback, [])
         else (case llm_attempt W env url title findings fallback of
                 (Inl e, sent) \<Rightarrow> (Inr fallback, sent)
               | (Inr text, sent) \<Rightarrow> (Inr text, sent)))"

section \<open>Report assembly (cli.py and webapp.py)\<close>

text \<open>
  A report is a Python dict whose values are strings, ints, lists and nested dicts. Which
  keys a report has is part of its behaviour, so the report is modelled as the dict the
  source builds, key by key, not as a record.
\<close>

datatype pyval = PStr string | PInt int | PList "pyval list" | PDict "(string \<times> pyval) list"

definition str_dict :: "dict \<Rightarrow> pyval" where
  "str_dict d = PDict (map (\<lambda>(k, v). (k, PStr v)) d)"

fun pyval_get :: "pyval \<Rightarrow> string \<Rightarrow> pyval option" where
  \<comment> \<open>\<^verbatim>\<open>v.get(k)\<close> on a dict value\<close>
  "pyval_get (PDict d) k = map_of d k"
| "pyval_get _ k = None"

fun dict_set :: "dict \<Rightarrow> string \<Rightarrow> string \<Rightarrow> dict" where
  \<comment> \<open>\<^verbatim>\<open>d[k] = v\<close>: an existing key keeps its position, a new key goes last\<close>
  "dict_set [] k v = [(k, v)]"
| "dict_set ((k', v') # d) k v = (if k' = k then (k', v) # d else (k', v') # dict_set d k v)"

definition dict_of_items :: "(string \<times> string) list \<Rightarrow> dict" where
  \<comment> \<open>\<^verbatim>\<open>dict(items)\<close>\<close>
  "dict_of_items items = foldl (\<lambda>d (k, v). dict_set d k v) [] items"

definition dict_getitem :: "dict \<Rightarrow> string \<Rightarrow> exn + string" where
  \<comment> \<open>\<^verbatim>\<open>d[k]\<close>, which raises \<^verbatim>\<open>KeyError\<close> on a missing key\<close>
  "dict_getitem d k = (case map_of d k of None \<Rightarrow> Inl (Exception ''KeyError'') | Some v \<Rightarrow> Inr v)"

fun dict_comprehension :: "dict \<Rightarrow> string list \<Rightarrow> dict \<Rightarrow> exn + dict" where
  \<comment> \<open>\<^verbatim>\<open>{k: headers[k] for k in ks}\<close>, with the dict built so far as third argument\<close>
  "dict_comprehension headers [] acc = Inr acc"
| "dict_comprehension headers (k # ks) acc =
     (case dict_getitem headers k of
        Inl e \<Rightarrow> Inl e
      | Inr v \<Rightarrow> dict_comprehension headers ks (dict_set acc k v))"

text \<open>
  \<open>cli_report\<close> is the part of \<^verbatim>\<open>main\<close> (cli.py) from \<^verbatim>\<open>severity_counts = ...\<close> to
  the end of the \<^verbatim>\<open>report = {...}\<close> literal, as a function of the values in scope there.
  \<open>utcnow_iso\<close> is the clock's \<^verbatim>\<open>datetime.utcnow().isoformat()\<close>.
\<close>

definition cli_report ::
  "string \<Rightarrow> string \<Rightarrow> dict \<Rightarrow> dict list \<Rightarrow> string \<Rightarrow> exn + (string \<times> pyval) list" where
  "cli_report url title headers findings utcnow_iso =
     (let severity_counts =
            [(''High'', PInt (count_severity ''High'' findings)),
             (''Medium'', PInt (count_severity ''Medium'' findings)),
             (''Low'', PInt (count_severity ''Low'' findings))]
      in case dict_comprehension headers (take 25 (sort (map fst headers))) [] of
           Inl e \<Rightarrow> Inl e
         | Inr headers_sample \<Rightarrow>
            Inr [(''url'', PStr url),
                 (''title'', PStr title),
                 (''headers_sample'', str_dict headers_sample),
                 (''findings'', PList (map str_dict findings)),
                 (''meta'', PDict [(''tool'', PStr ''WebSentry AI''),
                                   (''version'', PStr ''0.1.0''),
                                   (''scanned_at'', PStr (utcnow_iso @ ''Z''))]),
                 (''summary'', PDict [(''total_findings'', PInt (int (length findings))),
                                      (''severity_breakdown'', PDict severity_counts)])])"

text \<open>
  \<^verbatim>\<open>main\<close> up to the assembled report: the page fetch is a collaborator (a browser),
  whose failure propagates; writing and printing the report afterwards is not modelled.
\<close>

definition main ::
  "(string \<Rightarrow> exn + string \<times> dict) \<Rightarrow> string \<Rightarrow> string \<Rightarrow> exn + (string \<times> pyval) list" where
  "main fetch_page_title_and_headers utcnow_iso url =
     (case fetch_page_title_and_headers url of
        Inl e \<Rightarrow> Inl e
      | Inr (title, headers) \<Rightarrow>
         (let findings = run_rule_based_checks headers
          in cli_report url title headers findings utcnow_iso))"

definition llm_mode_string :: "environ \<Rightarrow> string" where
  "llm_mode_string env =
     (if llm_enabled env then ''AI-assisted (LLM enabled)'' else ''Rule-based (LLM disabled)'')"

text \<open>
  \<open>web_report\<close> is the \<^verbatim>\<open>report = {...}\<close> literal of \<^verbatim>\<open>_build_report\<close> (webapp.py) as
  a function of the values in scope there; \<open>utc_iso\<close> is the result of \<^verbatim>\<open>_utc_iso()\<close>.
\<close>

definition web_report ::
  "environ \<Rightarrow> string \<Rightarrow> string \<Rightarrow> dict \<Rightarrow> dict list \<Rightarrow> string \<Rightarrow> string
     \<Rightarrow> (string \<times> pyval) list" where
  "web_report env url title headers findings exec_summary utc_iso =
     [(''url'', PStr url),
      (''title'', PStr title),
      (''executive_summary'', PStr exec_summary),
      (''headers_sample'', str_dict (dict_of_items (take 20 headers))),
      (''findings'', PList (map str_dict findings)),
      (''meta'', PDict [(''tool'', PStr ''WebSentry AI''),
                        (''version'', PStr (getenv env ''WEBSENTRY_VERSION'' ''0.1.0'')),
                        (''scanned_at'', PStr utc_iso),
                        (''mode'', PStr (llm_mode_string env)),
                        (''scope'', PStr ''Unauthenticated, read-only checks (MVP)'')])]"

definition build_report ::
  "'f llm_world \<Rightarrow> environ \<Rightarrow> (string \<Rightarrow> exn + string \<times> dict) \<Rightarrow> string \<Rightarrow> string
     \<Rightarrow> exn + (string \<times> pyval) list" where
  "build_report W env fetch_page_title_and_headers utc_iso url =
     (case fetch_page_title_and_headers url of
        Inl e \<Rightarrow> Inl e
      | Inr (title, headers) \<Rightarrow>
         (let findings = run_rule_based_checks headers
          in case fst (generate_executive_summary W env url title findings) of
               Inl e \<Rightarrow> Inl e
             | Inr exec_summary \<Rightarrow>
                Inr (web_report env url title headers findings exec_summary utc_iso)))"

section \<open>Reading a report, and sample collaborators\<close>

fun pyval_path :: "pyval \<Rightarrow> string list \<Rightarrow> pyval option" where
  \<comment> \<open>follow a path of keys into nested dicts; \<open>None\<close> when a key is absent\<close>
  "pyval_path v [] = Some v"
| "pyval_path v (k # ks) = (case pyval_get v k of None \<Rightarrow> None | Some w \<Rightarrow> pyval_path w ks)"

text \<open>Concrete collaborators and inputs, used to run the definitions on examples.\<close>

definition ok_world :: "string llm_world" where
  \<comment> \<open>the service answers with text padded by blanks\<close>
  "ok_world = \<lparr> load_client = Inr (), py_int = (\<lambda>s. Inr 140), py_float = (\<lambda>s. Inr s),
                create_content = (\<lambda>r. Inr (Some '' ok '')) \<rparr>"

definition blank_world :: "string llm_world" where
  \<comment> \<open>the service answers with blanks only\<close>
  "blank_world = \<lparr> load_client = Inr (), py_int = (\<lambda>s. Inr 140), py_float = (\<lambda>s. Inr s),
                   create_content = (\<lambda>r. Inr (Some ''  '')) \<rparr>"

definition timeout_world :: "string llm_world" where
  \<comment> \<open>the call to the service raises\<close>
  "timeout_world = \<lparr> load_client = Inr (), py_int = (\<lambda>s. Inr 140), py_float = (\<lambda>s. Inr s),
                     create_content = (\<lambda>r. Inl (Exception ''APITimeoutError'')) \<rparr>"

definition no_client_world :: "string llm_world" where
  \<comment> \<open>the client library cannot be loaded\<close>
  "no_client_world = \<lparr> load_client = Inl (Exception ''ImportError''),
                       py_int = (\<lambda>s. Inr 140), py_float = (\<lambda>s. Inr s),
                       create_content = (\<lambda>r. Inr (Some ''unused'')) \<rparr>"

definition enabled_env :: environ where
  "enabled_env = [''WEBSENTRY_LLM_ENABLED'' \<mapsto> ''True'', ''OPENAI_API_KEY'' \<mapsto> ''sk-test'']"

definition mixed_case_headers :: dict where
  \<comment> \<open>header names as a server sends them and \<^verbatim>\<open>dict(r.headers)\<close> keeps them\<close>
  "mixed_case_headers = [(''Server'', ''nginx/1.18''), (''Date'', ''Tue, 03 Nov 2026'')]"

definition example_fetch :: "string \<Rightarrow> exn + string \<times> dict" where
  "example_fetch url = Inr (''Example'', mixed_case_headers)"

section \<open>Facts about the rule engine\<close>

lemma run_rule_based_checks_eq:
  "run_rule_based_checks h =
     (if dict_contains ''content-security-policy'' h then [] else [csp_finding])
     @ (if dict_contains ''x-frame-options'' h then [] else [xfo_finding])
     @ (if dict_contains ''server'' h then [server_finding h] else [])"
  by (simp add: run_rule_based_checks_def)

lemma severity_simps:
  "dict_get csp_finding ''severity'' = Some ''Medium''"
  "dict_get xfo_finding ''severity'' = Some ''Low''"
  "dict_get (server_finding h) ''severity'' = Some ''Low''"
  by (simp_all add: dict_get_def csp_finding_def xfo_finding_def server_finding_def)

lemma title_simps:
  "dict_get csp_finding ''title'' = Some ''Missing Content-Security-Policy header''"
  "dict_get xfo_finding ''title'' = Some ''Missing X-Frame-Options header''"
  "dict_get (server_finding h) ''title'' = Some ''Server version disclosure''"
  by (simp_all add: dict_get_def csp_finding_def xfo_finding_def server_finding_def)

lemma subseq_three_rules:
  "subseq ((if a then [] else [x]) @ (if b then [] else [y]) @ (if c then [z] else []))
          [x, y, z]"
  by auto

lemma count_severity_Nil: "count_severity s [] = 0"
  by (simp add: count_severity_def)

lemma count_severity_append:
  "count_severity s (xs @ ys) = count_severity s xs + count_severity s ys"
  by (simp add: count_severity_def)

lemma count_severity_single:
  "count_severity s [f] = (if dict_get f ''severity'' = Some s then 1 else 0)"
  by (simp add: count_severity_def)

lemma count_severity_length:
  "count_severity s fs = int (length (filter (\<lambda>f. dict_get f ''severity'' = Some s) fs))"
  by (induction fs) (simp_all add: count_severity_def)

lemma count_severity_pos:
  "0 < count_severity s fs \<longleftrightarrow> (\<exists>f \<in> set fs. dict_get f ''severity'' = Some s)"
  by (simp add: count_severity_length filter_empty_conv)

lemma no_high: "count_severity ''High'' (run_rule_based_checks h) = 0"
  by (simp add: run_rule_based_checks_eq count_severity_append count_severity_single
      count_severity_Nil severity_simps)

lemma length_run: "length (run_rule_based_checks h) \<le> 3"
  by (simp add: run_rule_based_checks_eq)

lemma severity_run:
  "f \<in> set (run_rule_based_checks h) \<Longrightarrow>
     dict_get f ''severity'' = Some ''Medium'' \<or> dict_get f ''severity'' = Some ''Low''"
  by (auto simp: run_rule_based_checks_eq severity_simps split: if_splits)

text \<open>
  On the exact lower-case key the two header rules behave as intended: the
  Content-Security-Policy finding is reported once when the key is absent and not at all
  when it is present, and the Server finding quotes the header's value.
\<close>

lemma csp_rule_exact_key:
  "filter (\<lambda>f. dict_get f ''title'' = Some ''Missing Content-Security-Policy header'')
          (run_rule_based_checks h)
     = (if dict_contains ''content-security-policy'' h then [] else [csp_finding])"
  by (simp add: run_rule_based_checks_eq title_simps)

lemma server_rule_exact_key:
  assumes "dict_get h ''server'' = Some v"
  shows "server_finding h \<in> set (run_rule_based_checks h)"
    and "dict_get (server_finding h) ''evidence'' = Some (''Server header present: '' @ v)"
    and "sublist v (''Server header present: '' @ v)"
proof -
  from assms have "dict_contains ''server'' h" by (simp add: dict_contains_def dict_get_def)
  then show "server_finding h \<in> set (run_rule_based_checks h)"
    by (simp add: run_rule_based_checks_eq)
  from assms
  show "dict_get (server_finding h) ''evidence'' = Some (''Server header present: '' @ v)"
    by (simp add: dict_get_def server_finding_def py_format_def)
  have "sublist v (''Server header present: '' @ v @ [])" by (rule sublist_appendI)
  then show "sublist v (''Server header present: '' @ v)" by simp
qed

section \<open>Facts about the summarizer\<close>

lemma rule_based_executive_summary_nonempty:
  "rule_based_executive_summary url title findings \<noteq> []"
  by (simp add: rule_based_executive_summary_def Let_def split: prod.splits)

lemma generate_cases:
  "fst (generate_executive_summary W env url title findings)
     = Inr (rule_based_executive_summary url title findings)
   \<or> (\<exists>c. py_strip (py_or_empty c) \<noteq> []
        \<and> fst (generate_executive_summary W env url title findings)
            = Inr (py_strip (py_or_empty c)))"
  by (auto simp: generate_executive_summary_def llm_attempt_def Let_def split: sum.splits)

lemma generate_failed_attempt:
  assumes "llm_enabled env"
    and "fst (llm_attempt W env url title findings
               (rule_based_executive_summary url title findings)) = Inl e"
  shows "fst (generate_executive_summary W env url title findings)
           = Inr (rule_based_executive_summary url title findings)"
  using assms by (auto simp: generate_executive_summary_def Let_def split: prod.splits sum.splits)

lemma summary_empty:
  "rule_based_executive_summary url title [] =
     ''A lightweight security review of '' @ url @ '' ('' @ title
     @ '') did not identify obvious baseline security misconfigurations during limited automated checks. This does not guarantee the application is secure, and deeper authenticated testing may still be required.''"
  by (simp add: rule_based_executive_summary_def)

lemma summary_nonempty:
  assumes "findings \<noteq> []"
  shows "rule_based_executive_summary url title findings =
     ''A lightweight security review of '' @ url @ '' ('' @ title @ '') identified ''
     @ str_int (int (length findings)) @ '' issue(s): ''
     @ str_int (count_severity ''High'' findings) @ '' High, ''
     @ str_int (count_severity ''Medium'' findings) @ '' Medium, and ''
     @ str_int (count_severity ''Low'' findings)
     @ '' Low. Overall, the application presents a ''
     @ (if \<exists>f \<in> set findings. dict_get f ''severity'' = Some ''High'' then ''elevated risk''
        else if \<exists>f \<in> set findings. dict_get f ''severity'' = Some ''Medium''
        then ''moderate risk''
        else ''low-to-moderate risk'')
     @ '' security posture driven primarily by configuration and security header gaps. ''
     @ ''It is recommended to ''
     @ (if \<exists>f \<in> set findings. dict_get f ''severity'' = Some ''High''
        then ''address High severity issues immediately, followed by Medium and Low findings''
        else if \<exists>f \<in> set findings. dict_get f ''severity'' = Some ''Medium''
        then ''remediate Medium severity issues first, then address Low severity hardening gaps''
        else ''resolve Low severity configuration and hardening issues'')
     @ '' and re-test to validate remediation.''"
  using assms
  by (simp add: rule_based_executive_summary_def Let_def posture_priority_def
      count_severity_pos del: Bex_def bex_simps)

lemma str_int_small: "str_int 0 = ''0''" "str_int 1 = ''1''" "str_int 2 = ''2''"
  by (simp_all add: str_int_def str_nat.simps)

lemma medium_low_counts:
  assumes "map (\<lambda>f. dict_get f ''severity'') findings = [Some ''Medium'', Some ''Low'']
         \<or> map (\<lambda>f. dict_get f ''severity'') findings = [Some ''Low'', Some ''Medium'']"
  shows "length findings = 2" "count_severity ''High'' findings = 0"
    "count_severity ''Medium'' findings = 1" "count_severity ''Low'' findings = 1"
proof -
  from assms obtain f g where fg: "findings = [f, g]" by auto
  with assms show "length findings = 2" by simp
  from assms fg show "count_severity ''High'' findings = 0"
    by (auto simp: count_severity_def)
  from assms fg show "count_severity ''Medium'' findings = 1"
    by (auto simp: count_severity_def)
  from assms fg show "count_severity ''Low'' findings = 1"
    by (auto simp: count_severity_def)
qed

lemma medium_low_text:
  assumes "map (\<lambda>f. dict_get f ''severity'') findings = [Some ''Medium'', Some ''Low'']
         \<or> map (\<lambda>f. dict_get f ''severity'') findings = [Some ''Low'', Some ''Medium'']"
  shows "rule_based_executive_summary url title findings =
     ''A lightweight security review of '' @ url @ '' ('' @ title @ '') identified ''
     @ ''2 issue(s): 0 High, 1 Medium, and 1 Low. Overall, the application presents a moderate risk security posture driven primarily by configuration and security header gaps. It is recommended to remediate Medium severity issues first, then address Low severity hardening gaps and re-test to validate remediation.''"
proof -
  note c = medium_low_counts [OF assms]
  from c(1) have ne: "findings \<noteq> []" by auto
  have h: "\<not> (\<exists>f \<in> set findings. dict_get f ''severity'' = Some ''High'')"
    using c(2) count_severity_pos [of "''High''" findings] by simp
  have m: "\<exists>f \<in> set findings. dict_get f ''severity'' = Some ''Medium''"
    using c(3) count_severity_pos [of "''Medium''" findings] by simp
  show ?thesis
    unfolding summary_nonempty [OF ne] c if_not_P [OF h] if_P [OF m]
    by (simp add: str_int_small)
qed

lemma medium_low_sublists:
  assumes "map (\<lambda>f. dict_get f ''severity'') findings = [Some ''Medium'', Some ''Low'']
         \<or> map (\<lambda>f. dict_get f ''severity'') findings = [Some ''Low'', Some ''Medium'']"
  shows "sublist ''2 issue(s): 0 High, 1 Medium''
           (rule_based_executive_summary url title findings)"
    and "sublist ''moderate risk'' (rule_based_executive_summary url title findings)"
proof -
  have 1: "rule_based_executive_summary url title findings =
      (''A lightweight security review of '' @ url @ '' ('' @ title @ '') identified '')
      @ ''2 issue(s): 0 High, 1 Medium''
      @ '', and 1 Low. Overall, the application presents a moderate risk security posture driven primarily by configuration and security header gaps. It is recommended to remediate Medium severity issues first, then address Low severity hardening gaps and re-test to validate remediation.''"
    unfolding medium_low_text [OF assms] by simp
  show "sublist ''2 issue(s): 0 High, 1 Medium''
          (rule_based_executive_summary url title findings)"
    unfolding 1 by (rule sublist_appendI)
  have 2: "rule_based_executive_summary url title findings =
      (''A lightweight security review of '' @ url @ '' ('' @ title @ '') identified 2 issue(s): 0 High, 1 Medium, and 1 Low. Overall, the application presents a '')
      @ ''moderate risk''
      @ '' security posture driven primarily by configuration and security header gaps. It is recommended to remediate Medium severity issues first, then address Low severity hardening gaps and re-test to validate remediation.''"
    unfolding medium_low_text [OF assms] by simp
  show "sublist ''moderate risk'' (rule_based_executive_summary url title findings)"
    unfolding 2 by (rule sublist_appendI)
qed

section \<open>Facts about dicts and the two report assemblers\<close>

lemma dict_set_fresh: "k \<notin> fst ` set d \<Longrightarrow> dict_set d k v = d @ [(k, v)]"
  by (induction d) auto

lemma foldl_dict_set_distinct:
  "distinct (map fst (acc @ xs)) \<Longrightarrow>
     foldl (\<lambda>d (k, v). dict_set d k v) acc xs = acc @ xs"
proof (induction xs arbitrary: acc)
  case Nil
  then show ?case by simp
next
  case (Cons x xs)
  obtain k v where x: "x = (k, v)" by (cases x)
  from Cons.prems x have fresh: "k \<notin> fst ` set acc" by auto
  from Cons.prems x have "distinct (map fst ((acc @ [(k, v)]) @ xs))" by simp
  from Cons.IH [OF this] show ?case
    by (simp add: x dict_set_fresh [OF fresh])
qed

lemma dict_of_items_distinct: "distinct (map fst xs) \<Longrightarrow> dict_of_items xs = xs"
  using foldl_dict_set_distinct [of "[]" xs] by (simp add: dict_of_items_def)

lemma dict_getitem_present:
  "k \<in> fst ` set d \<Longrightarrow> \<exists>v. dict_getitem d k = Inr v \<and> (k, v) \<in> set d"
  by (cases "map_of d k") (auto simp: dict_getitem_def map_of_eq_None_iff dest: map_of_SomeD)

lemma dict_comprehension_ok:
  "set ks \<subseteq> fst ` set headers \<Longrightarrow> \<exists>d. dict_comprehension headers ks acc = Inr d"
proof (induction ks arbitrary: acc)
  case Nil
  then show ?case by simp
next
  case (Cons k ks)
  from Cons.prems have "k \<in> fst ` set headers" by simp
  from dict_getitem_present [OF this] obtain v where "dict_getitem headers k = Inr v" by blast
  with Cons.IH [of "dict_set acc k v"] Cons.prems show ?case by simp
qed

lemma dict_comprehension_distinct:
  "set ks \<subseteq> fst ` set headers \<Longrightarrow> distinct (map fst acc @ ks) \<Longrightarrow>
     \<exists>d. dict_comprehension headers ks acc = Inr (acc @ d)
          \<and> map fst d = ks \<and> set d \<subseteq> set headers"
proof (induction ks arbitrary: acc)
  case Nil
  then show ?case by simp
next
  case (Cons k ks)
  from Cons.prems have "k \<in> fst ` set headers" by simp
  from dict_getitem_present [OF this] obtain v where
    v: "dict_getitem headers k = Inr v" "(k, v) \<in> set headers" by blast
  from Cons.prems have fresh: "k \<notin> fst ` set acc" by auto
  from Cons.prems have "set ks \<subseteq> fst ` set headers" "distinct (map fst (acc @ [(k, v)]) @ ks)"
    by auto
  from Cons.IH [OF this] obtain d where
    d: "dict_comprehension headers ks (acc @ [(k, v)]) = Inr ((acc @ [(k, v)]) @ d)"
       "map fst d = ks" "set d \<subseteq> set headers" by blast
  show ?case
  proof (intro exI conjI)
    show "dict_comprehension headers (k # ks) acc = Inr (acc @ ((k, v) # d))"
      using v(1) d(1) by (simp add: dict_set_fresh [OF fresh])
    show "map fst ((k, v) # d) = k # ks" using d(2) by simp
    show "set ((k, v) # d) \<subseteq> set headers" using d(3) v(2) by simp
  qed
qed

lemma take_sort_keys:
  "set (take n (sort (map fst headers))) \<subseteq> fst ` set headers"
  using set_take_subset [of n "sort (map fst headers)"] by auto

lemma sorted_take_sort: "sorted (take n (sort xs))"
  by (simp add: sorted_wrt_take)

lemma cli_report_ok: "\<exists>r. cli_report url title headers findings now = Inr r"
proof -
  from dict_comprehension_ok [OF take_sort_keys] obtain d where
    "dict_comprehension headers (take 25 (sort (map fst headers))) [] = Inr d" by blast
  then show ?thesis by (simp add: cli_report_def)
qed

lemma cli_report_fields:
  assumes "cli_report url title headers findings now = Inr r"
  shows "pyval_path (PDict r) [''findings''] = Some (PList (map str_dict findings))"
    and "pyval_path (PDict r) [''summary'', ''total_findings'']
           = Some (PInt (int (length findings)))"
    and "pyval_path (PDict r) [''summary'', ''severity_breakdown''] =
           Some (PDict [(''High'', PInt (count_severity ''High'' findings)),
                        (''Medium'', PInt (count_severity ''Medium'' findings)),
                        (''Low'', PInt (count_severity ''Low'' findings))])"
    and "pyval_path (PDict r) [''meta'', ''mode''] = None"
    and "pyval_path (PDict r) [''executive_summary''] = None"
    and "pyval_path (PDict r) [''summary'', ''severity_breakdown'', ''High'']
           = Some (PInt (count_severity ''High'' findings))"
  using assms by (auto simp: cli_report_def split: sum.splits)

lemma cli_headers_sample:
  assumes "distinct (map fst headers)"
  shows "\<exists>r sample. cli_report url title headers findings now = Inr r
           \<and> pyval_path (PDict r) [''headers_sample''] = Some (str_dict sample)
           \<and> map fst sample = take 25 (sort (map fst headers))
           \<and> set sample \<subseteq> set headers"
proof -
  let ?ks = "take 25 (sort (map fst headers))"
  from assms have "distinct ?ks" by (simp add: distinct_take)
  then have "distinct (map fst [] @ ?ks)" by simp
  from dict_comprehension_distinct [OF take_sort_keys this] obtain d where
    d: "dict_comprehension headers ?ks [] = Inr d" "map fst d = ?ks" "set d \<subseteq> set headers"
    by auto
  have "cli_report url title headers findings now = Inr
          [(''url'', PStr url), (''title'', PStr title), (''headers_sample'', str_dict d),
           (''findings'', PList (map str_dict findings)),
           (''meta'', PDict [(''tool'', PStr ''WebSentry AI''), (''version'', PStr ''0.1.0''),
                             (''scanned_at'', PStr (now @ ''Z''))]),
           (''summary'', PDict [(''total_findings'', PInt (int (length findings))),
              (''severity_breakdown'',
               PDict [(''High'', PInt (count_severity ''High'' findings)),
                      (''Medium'', PInt (count_severity ''Medium'' findings)),
                      (''Low'', PInt (count_severity ''Low'' findings))])])]"
    (is "_ = Inr ?r")
    using d(1) by (simp add: cli_report_def)
  moreover have "pyval_path (PDict ?r) [''headers_sample''] = Some (str_dict d)" by simp
  ultimately show ?thesis using d(2,3) by blast
qed

lemma main_fetched:
  "fetch url = Inr (title, headers) \<Longrightarrow>
     main fetch now url = cli_report url title headers (run_rule_based_checks headers) now"
  by (simp add: main_def)

lemma main_Inr:
  "main fetch now url = Inr r \<Longrightarrow>
     \<exists>title headers. cli_report url title headers (run_rule_based_checks headers) now = Inr r"
  by (auto simp: main_def split: sum.splits)

lemma web_report_fields:
  "pyval_path (PDict (web_report env url title headers findings es t)) [''summary''] = None"
  "pyval_path (PDict (web_report env url title headers findings es t)) [''executive_summary'']
     = Some (PStr es)"
  "pyval_path (PDict (web_report env url title headers findings es t)) [''meta'', ''mode'']
     = Some (PStr (llm_mode_string env))"
  "pyval_path (PDict (web_report env url title headers findings es t)) [''findings'']
     = Some (PList (map str_dict findings))"
  "pyval_path (PDict (web_report env url title headers findings es t)) [''headers_sample'']
     = Some (str_dict (dict_of_items (take 20 headers)))"
  by (simp_all add: web_report_def)

lemma build_report_Inr:
  "build_report W env fetch t url = Inr r \<Longrightarrow>
     \<exists>title headers es. fetch url = Inr (title, headers)
        \<and> fst (generate_executive_summary W env url title (run_rule_based_checks headers)) = Inr es
        \<and> r = web_report env url title headers (run_rule_based_checks headers) es t"
  by (auto simp: build_report_def Let_def split: sum.splits)

lemma build_report_fetched:
  assumes "fetch url = Inr (title, headers)"
    and "fst (generate_executive_summary W env url title (run_rule_based_checks headers)) = Inr es"
  shows "build_report W env fetch t url
           = Inr (web_report env url title headers (run_rule_based_checks headers) es t)"
  using assms by (simp add: build_report_def)

lemma generate_Inr:
  "\<exists>s. fst (generate_executive_summary W env url title findings) = Inr s"
  using generate_cases [of W env url title findings] by auto

lemma build_report_ok:
  assumes "fetch url = Inr (title, headers)"
  shows "\<exists>es. build_report W env fetch t url
           = Inr (web_report env url title headers (run_rule_based_checks headers) es t)"
proof -
  from generate_Inr obtain es where
    "fst (generate_executive_summary W env url title (run_rule_based_checks headers)) = Inr es"
    by blast
  with assms have "build_report W env fetch t url
           = Inr (web_report env url title headers (run_rule_based_checks headers) es t)"
    by (rule build_report_fetched)
  then show ?thesis by blast
qed

lemma web_report_no_high_count:
  "pyval_path (PDict (web_report env url title headers findings es t))
     [''summary'', ''severity_breakdown'', ''High''] = None"
  by (simp add: web_report_def)

section \<open>The summarizer's contract\<close>

text \<open>
  Claim C1. For every url, title and findings list, every environment (opt-in flag and
  credential) and every behaviour of the external collaborators (the call returns text,
  returns no or empty text, or any step raises), \<open>generate_executive_summary\<close> returns
  normally, and the string it returns is not empty.
\<close>

theorem generate_executive_summary_never_fails:
  "\<exists>s. fst (generate_executive_summary W env url title findings) = Inr s \<and> s \<noteq> []"
  using generate_cases [of W env url title findings]
    rule_based_executive_summary_nonempty [of url title findings]
  by auto

theorem generate_executive_summary_never_fails_witness:
  "fst (generate_executive_summary timeout_world enabled_env ''http://example.test'' ''Example'' [])
     = Inr (rule_based_executive_summary ''http://example.test'' ''Example'' [])
   \<and> rule_based_executive_summary ''http://example.test'' ''Example'' [] \<noteq> []"
proof -
  have run: "fst (generate_executive_summary timeout_world enabled_env
                    ''http://example.test'' ''Example'' [])
               = Inr (rule_based_executive_summary ''http://example.test'' ''Example'' [])"
    by code_simp
  from generate_executive_summary_never_fails
         [of timeout_world enabled_env "''http://example.test''" "''Example''" "[]"]
  obtain s where "fst (generate_executive_summary timeout_world enabled_env
                         ''http://example.test'' ''Example'' []) = Inr s" and "s \<noteq> []"
    by blast
  with run show ?thesis by simp
qed

text \<open>
  Claim C2, as the code has it. The capability is enabled exactly when the opt-in flag,
  lower-cased, is \<open>true\<close> and the credential is set and not empty. When it is disabled the
  fallback is returned and no request is sent. When it is enabled and the call returns,
  the result is the returned text with leading and trailing whitespace removed if that
  is not empty, and the fallback otherwise (no text, empty text, whitespace only); when
  the call raises the result is the fallback, with the one request sent; when a step
  before the call raises the result is the fallback, with no request sent.
\<close>

theorem generate_executive_summary_paths:
  "(let fb = rule_based_executive_summary url title findings;
        gen = generate_executive_summary W env url title findings;
        req = chat_request_of env url title findings;
        setup = (\<lambda>mt temp. load_client W = Inr ()
                   \<and> py_int W (getenv env ''WEBSENTRY_LLM_MAX_TOKENS'' ''140'') = Inr mt
                   \<and> py_float W (getenv env ''WEBSENTRY_LLM_TEMPERATURE'' ''0.3'') = Inr temp)
    in (llm_enabled env \<longleftrightarrow>
          py_lower (getenv env ''WEBSENTRY_LLM_ENABLED'' ''false'') = ''true''
          \<and> (\<exists>k. env ''OPENAI_API_KEY'' = Some k \<and> k \<noteq> []))
     \<and> (\<not> llm_enabled env \<longrightarrow> gen = (Inr fb, []))
     \<and> (\<forall>mt temp c. llm_enabled env \<and> setup mt temp
           \<and> create_content W (req mt temp) = Inr c \<and> py_strip (py_or_empty c) \<noteq> []
           \<longrightarrow> gen = (Inr (py_strip (py_or_empty c)), [req mt temp]))
     \<and> (\<forall>mt temp c. llm_enabled env \<and> setup mt temp
           \<and> create_content W (req mt temp) = Inr c \<and> py_strip (py_or_empty c) = []
           \<longrightarrow> gen = (Inr fb, [req mt temp]))
     \<and> (\<forall>mt temp e. llm_enabled env \<and> setup mt temp
           \<and> create_content W (req mt temp) = Inl e
           \<longrightarrow> gen = (Inr fb, [req mt temp]))
     \<and> (\<forall>e. llm_enabled env
           \<and> (load_client W = Inl e
               \<or> py_int W (getenv env ''WEBSENTRY_LLM_MAX_TOKENS'' ''140'') = Inl e
               \<or> py_float W (getenv env ''WEBSENTRY_LLM_TEMPERATURE'' ''0.3'') = Inl e)
           \<longrightarrow> gen = (Inr fb, [])))"
  unfolding Let_def
proof (intro conjI allI impI)
  show "llm_enabled env \<longleftrightarrow>
          py_lower (getenv env ''WEBSENTRY_LLM_ENABLED'' ''false'') = ''true''
          \<and> (\<exists>k. env ''OPENAI_API_KEY'' = Some k \<and> k \<noteq> [])"
    by (auto simp: llm_enabled_def py_bool_def split: option.splits)
qed (auto simp: generate_executive_summary_def llm_attempt_def Let_def split: sum.splits)

theorem generate_executive_summary_paths_witness:
  "generate_executive_summary ok_world Map.empty ''u'' ''t'' []
     = (Inr (rule_based_executive_summary ''u'' ''t'' []), [])
   \<and> generate_executive_summary ok_world enabled_env ''u'' ''t'' []
     = (Inr ''ok'', [chat_request_of enabled_env ''u'' ''t'' [] 140 ''0.3''])
   \<and> generate_executive_summary blank_world enabled_env ''u'' ''t'' []
     = (Inr (rule_based_executive_summary ''u'' ''t'' []),
        [chat_request_of enabled_env ''u'' ''t'' [] 140 ''0.3''])
   \<and> generate_executive_summary timeout_world enabled_env ''u'' ''t'' []
     = (Inr (rule_based_executive_summary ''u'' ''t'' []),
        [chat_request_of enabled_env ''u'' ''t'' [] 140 ''0.3''])
   \<and> generate_executive_summary no_client_world enabled_env ''u'' ''t'' []
     = (Inr (rule_based_executive_summary ''u'' ''t'' []), [])"
proof -
  let ?req = "chat_request_of enabled_env ''u'' ''t'' [] 140 ''0.3''"
  have off: "\<not> llm_enabled Map.empty" by code_simp
  have on: "llm_enabled enabled_env" by code_simp
  have ok: "load_client ok_world = Inr ()
      \<and> py_int ok_world (getenv enabled_env ''WEBSENTRY_LLM_MAX_TOKENS'' ''140'') = Inr 140
      \<and> py_float ok_world (getenv enabled_env ''WEBSENTRY_LLM_TEMPERATURE'' ''0.3'') = Inr ''0.3''"
    "create_content ok_world ?req = Inr (Some '' ok '')"
    "py_strip (py_or_empty (Some '' ok '')) = ''ok''"
    by code_simp+
  have blank: "load_client blank_world = Inr ()
      \<and> py_int blank_world (getenv enabled_env ''WEBSENTRY_LLM_MAX_TOKENS'' ''140'') = Inr 140
      \<and> py_float blank_world (getenv enabled_env ''WEBSENTRY_LLM_TEMPERATURE'' ''0.3'') = Inr ''0.3''"
    "create_content blank_world ?req = Inr (Some ''  '')"
    "py_strip (py_or_empty (Some ''  '')) = []"
    by code_simp+
  have tmo: "load_client timeout_world = Inr ()
      \<and> py_int timeout_world (getenv enabled_env ''WEBSENTRY_LLM_MAX_TOKENS'' ''140'') = Inr 140
      \<and> py_float timeout_world (getenv enabled_env ''WEBSENTRY_LLM_TEMPERATURE'' ''0.3'') = Inr ''0.3''"
    "create_content timeout_world ?req = Inl (Exception ''APITimeoutError'')"
    by code_simp+
  have noc: "load_client no_client_world = Inl (Exception ''ImportError'')"
    by code_simp
  note a = generate_executive_summary_paths
             [of "''u''" "''t''" "[]" ok_world Map.empty, unfolded Let_def]
  note b = generate_executive_summary_paths
             [of "''u''" "''t''" "[]" ok_world enabled_env, unfolded Let_def]
  note c = generate_executive_summary_paths
             [of "''u''" "''t''" "[]" blank_world enabled_env, unfolded Let_def]
  note d = generate_executive_summary_paths
             [of "''u''" "''t''" "[]" timeout_world enabled_env, unfolded Let_def]
  note e = generate_executive_summary_paths
             [of "''u''" "''t''" "[]" no_client_world enabled_env, unfolded Let_def]
  from a off have 1: "generate_executive_summary ok_world Map.empty ''u'' ''t'' []
     = (Inr (rule_based_executive_summary ''u'' ''t'' []), [])" by blast
  from b on ok have 2: "generate_executive_summary ok_world enabled_env ''u'' ''t'' []
     = (Inr ''ok'', [?req])" by force
  from c on blank have 3: "generate_executive_summary blank_world enabled_env ''u'' ''t'' []
     = (Inr (rule_based_executive_summary ''u'' ''t'' []), [?req])" by force
  from d on tmo have 4: "generate_executive_summary timeout_world enabled_env ''u'' ''t'' []
     = (Inr (rule_based_executive_summary ''u'' ''t'' []), [?req])" by force
  from e on noc have 5: "generate_executive_summary no_client_world enabled_env ''u'' ''t'' []
     = (Inr (rule_based_executive_summary ''u'' ''t'' []), [])" by blast
  from 1 2 3 4 5 show ?thesis by simp
qed

text \<open>
  The claim as stated says the call's own text is returned whenever it is not empty. The
  code strips it first: an answer padded with blanks is returned without them.
\<close>

theorem generate_executive_summary_strips_counterexample:
  "llm_enabled enabled_env
   \<and> create_content ok_world (chat_request_of enabled_env ''u'' ''t'' [] 140 ''0.3'')
       = Inr (Some '' ok '')
   \<and> fst (generate_executive_summary ok_world enabled_env ''u'' ''t'' []) = Inr ''ok''
   \<and> fst (generate_executive_summary ok_world enabled_env ''u'' ''t'' []) \<noteq> Inr '' ok ''"
  by code_simp

section \<open>The rule engine\<close>

text \<open>
  Claim C3 asks for case-insensitive matching of the Content-Security-Policy header name.
  \<open>run_rule_based_checks\<close> compares keys exactly, and the web application hands it
  \<^verbatim>\<open>dict(r.headers)\<close>, whose keys keep the letter case the server sent. On a header map
  that carries the header under its usual spelling the engine still reports it missing,
  with the evidence text "No Content-Security-Policy header present in response".
\<close>

theorem csp_rule_misses_mixed_case_key:
  "py_lower ''Content-Security-Policy'' = ''content-security-policy''
   \<and> run_rule_based_checks [(''Content-Security-Policy'', ''default-src https:'')]
       = [csp_finding, xfo_finding]
   \<and> dict_get csp_finding ''title'' = Some ''Missing Content-Security-Policy header''
   \<and> dict_get csp_finding ''evidence''
       = Some ''No Content-Security-Policy header present in response''"
  by code_simp

text \<open>
  Claim C4 asks that a Server header in any letter case yields a Low finding quoting its
  value. With the key spelled \<open>Server\<close> the engine reports no server finding at all: the
  output is the two missing-header findings, and no evidence string contains the value.
\<close>

theorem server_rule_misses_mixed_case_key:
  "py_lower ''Server'' = ''server''
   \<and> run_rule_based_checks [(''Server'', ''nginx/1.18'')] = [csp_finding, xfo_finding]
   \<and> filter (\<lambda>f. sublist ''nginx/1.18'' (dict_get_default f ''evidence'' []))
        (run_rule_based_checks [(''Server'', ''nginx/1.18'')]) = []"
  by code_simp

text \<open>
  Claim C9. The findings depend only on whether the two policy keys are present and on
  the value under \<open>server\<close>, so equal inputs (and even inputs that differ elsewhere) give
  equal outputs in equal order; the output is always a subsequence of the three findings
  in rule order (Content-Security-Policy, X-Frame-Options, Server); and a header map that
  triggers no rule gives the empty list.
\<close>

theorem rule_engine_deterministic_ordered:
  "(dict_contains ''content-security-policy'' ha = dict_contains ''content-security-policy'' hb
      \<and> dict_contains ''x-frame-options'' ha = dict_contains ''x-frame-options'' hb
      \<and> dict_get ha ''server'' = dict_get hb ''server''
      \<longrightarrow> run_rule_based_checks ha = run_rule_based_checks hb)
   \<and> subseq (run_rule_based_checks h) [csp_finding, xfo_finding, server_finding h]
   \<and> (dict_contains ''content-security-policy'' h \<and> dict_contains ''x-frame-options'' h
        \<and> \<not> dict_contains ''server'' h \<longrightarrow> run_rule_based_checks h = [])"
proof (intro conjI impI)
  assume a: "dict_contains ''content-security-policy'' ha
               = dict_contains ''content-security-policy'' hb
      \<and> dict_contains ''x-frame-options'' ha = dict_contains ''x-frame-options'' hb
      \<and> dict_get ha ''server'' = dict_get hb ''server''"
  then have "dict_contains ''server'' ha = dict_contains ''server'' hb"
    by (simp add: dict_contains_def dict_get_def)
  moreover from a have "server_finding ha = server_finding hb"
    by (simp add: server_finding_def)
  ultimately show "run_rule_based_checks ha = run_rule_based_checks hb"
    using a by (simp add: run_rule_based_checks_eq)
next
  show "subseq (run_rule_based_checks h) [csp_finding, xfo_finding, server_finding h]"
    unfolding run_rule_based_checks_eq by (rule subseq_three_rules)
next
  assume "dict_contains ''content-security-policy'' h \<and> dict_contains ''x-frame-options'' h
        \<and> \<not> dict_contains ''server'' h"
  then show "run_rule_based_checks h = []"
    by (simp add: run_rule_based_checks_eq)
qed

theorem rule_engine_deterministic_ordered_witness:
  "run_rule_based_checks
      [(''content-security-policy'', ''default-src https:''), (''x-frame-options'', ''DENY'')]
     = run_rule_based_checks
         [(''x-frame-options'', ''SAMEORIGIN''), (''content-security-policy'', ''img-src https:'')]
   \<and> subseq (run_rule_based_checks
        [(''content-security-policy'', ''default-src https:''), (''x-frame-options'', ''DENY'')])
        [csp_finding, xfo_finding, server_finding
          [(''content-security-policy'', ''default-src https:''), (''x-frame-options'', ''DENY'')]]
   \<and> run_rule_based_checks
        [(''content-security-policy'', ''default-src https:''), (''x-frame-options'', ''DENY'')]
       = []"
proof -
  let ?ha = "[(''content-security-policy'', ''default-src https:''), (''x-frame-options'', ''DENY'')]"
  let ?hb = "[(''x-frame-options'', ''SAMEORIGIN''), (''content-security-policy'', ''img-src https:'')]"
  have same: "dict_contains ''content-security-policy'' ?ha
                = dict_contains ''content-security-policy'' ?hb
      \<and> dict_contains ''x-frame-options'' ?ha = dict_contains ''x-frame-options'' ?hb
      \<and> dict_get ?ha ''server'' = dict_get ?hb ''server''"
    by code_simp
  have quiet: "dict_contains ''content-security-policy'' ?ha
      \<and> dict_contains ''x-frame-options'' ?ha \<and> \<not> dict_contains ''server'' ?ha"
    by code_simp
  from rule_engine_deterministic_ordered [of ?ha ?hb ?ha] same quiet
  show ?thesis by blast
qed

text \<open>
  Claim C10, as the code has it. The rule engine returns at most three findings, none of
  severity High. Hence the High count in the severity breakdown of every report that
  \<open>main\<close> assembles is 0; every report that \<open>build_report\<close> assembles has no severity
  breakdown, and the findings it carries are at most three with no High one among them;
  the test \<^verbatim>\<open>high > 0\<close> of the fallback summary is false on the engine's output, and the
  posture chosen there is never "elevated risk".
\<close>

theorem rule_engine_no_high:
  "length (run_rule_based_checks h) \<le> 3
   \<and> (\<forall>f \<in> set (run_rule_based_checks h). dict_get f ''severity'' \<noteq> Some ''High'')
   \<and> (\<forall>r. main fetch now url = Inr r \<longrightarrow>
         pyval_path (PDict r) [''summary'', ''severity_breakdown'', ''High''] = Some (PInt 0))
   \<and> (\<forall>r. build_report W env fetch t url = Inr r \<longrightarrow>
         pyval_path (PDict r) [''summary'', ''severity_breakdown'', ''High''] = None
         \<and> (\<exists>fs. pyval_path (PDict r) [''findings''] = Some (PList (map str_dict fs))
                \<and> length fs \<le> 3
                \<and> length (filter (\<lambda>f. dict_get f ''severity'' = Some ''High'') fs) = 0))
   \<and> \<not> 0 < count_severity ''High'' (run_rule_based_checks h)
   \<and> fst (posture_priority (count_severity ''High'' (run_rule_based_checks h))
                            (count_severity ''Medium'' (run_rule_based_checks h)))
        \<noteq> ''elevated risk''"
proof (intro conjI ballI allI impI)
  show "length (run_rule_based_checks h) \<le> 3" by (rule length_run)
next
  fix f assume "f \<in> set (run_rule_based_checks h)"
  from severity_run [OF this] show "dict_get f ''severity'' \<noteq> Some ''High''" by auto
next
  fix r assume m: "main fetch now url = Inr r"
  from main_Inr [OF this] obtain title headers where
    r: "cli_report url title headers (run_rule_based_checks headers) now = Inr r" by blast
  from cli_report_fields(6) [OF r] show
    "pyval_path (PDict r) [''summary'', ''severity_breakdown'', ''High''] = Some (PInt 0)"
    by (simp only: no_high)
next
  fix r assume "build_report W env fetch t url = Inr r"
  from build_report_Inr [OF this] obtain title' headers' es where
    "r = web_report env url title' headers' (run_rule_based_checks headers') es t" by blast
  then show "pyval_path (PDict r) [''summary'', ''severity_breakdown'', ''High''] = None"
    by (simp only: web_report_no_high_count)
next
  fix r assume "build_report W env fetch t url = Inr r"
  from build_report_Inr [OF this] obtain title' headers' es where
    r: "r = web_report env url title' headers' (run_rule_based_checks headers') es t" by blast
  have f: "pyval_path (PDict r) [''findings'']
             = Some (PList (map str_dict (run_rule_based_checks headers')))"
    unfolding r by (simp only: web_report_fields)
  have "int (length (filter (\<lambda>f. dict_get f ''severity'' = Some ''High'')
                       (run_rule_based_checks headers'))) = 0"
    using no_high [of headers'] by (simp only: count_severity_length)
  then have z: "length (filter (\<lambda>f. dict_get f ''severity'' = Some ''High'')
                          (run_rule_based_checks headers')) = 0" by simp
  from f length_run [of headers'] z
  show "\<exists>fs. pyval_path (PDict r) [''findings''] = Some (PList (map str_dict fs))
                \<and> length fs \<le> 3
                \<and> length (filter (\<lambda>f. dict_get f ''severity'' = Some ''High'') fs) = 0"
    by blast
next
  show "\<not> 0 < count_severity ''High'' (run_rule_based_checks h)" by (simp add: no_high)
next
  show "fst (posture_priority (count_severity ''High'' (run_rule_based_checks h))
                            (count_severity ''Medium'' (run_rule_based_checks h)))
        \<noteq> ''elevated risk''"
    by (simp add: no_high posture_priority_def)
qed

theorem rule_engine_no_high_witness:
  "length (run_rule_based_checks [(''server'', ''nginx/1.18'')]) \<le> 3
   \<and> csp_finding \<in> set (run_rule_based_checks [(''server'', ''nginx/1.18'')])
   \<and> dict_get csp_finding ''severity'' \<noteq> Some ''High''
   \<and> map_sum id (\<lambda>r. pyval_path (PDict r) [''summary'', ''severity_breakdown'', ''High''])
        (main example_fetch ''2026-11-03T00:00:00'' ''http://example.test'')
       = Inr (Some (PInt 0))
   \<and> map_sum id (\<lambda>r. pyval_path (PDict r) [''summary'', ''severity_breakdown'', ''High''])
        (build_report ok_world enabled_env example_fetch ''2026-11-03T00:00:00Z''
           ''http://example.test'')
       = Inr None"
proof -
  let ?h = "[(''server'', ''nginx/1.18'')]"
  note t = rule_engine_no_high
             [of ?h example_fetch "''2026-11-03T00:00:00''" "''http://example.test''"
                 ok_world enabled_env "''2026-11-03T00:00:00Z''"]
  have mem: "csp_finding \<in> set (run_rule_based_checks ?h)"
    by (simp add: run_rule_based_checks_eq dict_contains_def)
  have f: "example_fetch ''http://example.test'' = Inr (''Example'', mixed_case_headers)"
    by (simp add: example_fetch_def)
  from main_fetched [of example_fetch "''http://example.test''" "''Example''"
         mixed_case_headers "''2026-11-03T00:00:00''", OF f] cli_report_ok
  obtain r where r: "main example_fetch ''2026-11-03T00:00:00'' ''http://example.test'' = Inr r"
    by metis
  with t have "pyval_path (PDict r) [''summary'', ''severity_breakdown'', ''High'']
                 = Some (PInt 0)" by blast
  with r have 3: "map_sum id
        (\<lambda>r. pyval_path (PDict r) [''summary'', ''severity_breakdown'', ''High''])
        (main example_fetch ''2026-11-03T00:00:00'' ''http://example.test'')
       = Inr (Some (PInt 0))" by simp
  from build_report_ok [of example_fetch "''http://example.test''" "''Example''"
         mixed_case_headers ok_world enabled_env "''2026-11-03T00:00:00Z''", OF f]
  obtain r' where
    b: "build_report ok_world enabled_env example_fetch ''2026-11-03T00:00:00Z''
          ''http://example.test'' = Inr r'" by blast
  with t have "pyval_path (PDict r') [''summary'', ''severity_breakdown'', ''High''] = None"
    by blast
  with b have 4: "map_sum id
        (\<lambda>r. pyval_path (PDict r) [''summary'', ''severity_breakdown'', ''High''])
        (build_report ok_world enabled_env example_fetch ''2026-11-03T00:00:00Z''
           ''http://example.test'')
       = Inr None" by simp
  from t mem have 2: "dict_get csp_finding ''severity'' \<noteq> Some ''High''" by blast
  from t have 1: "length (run_rule_based_checks ?h) \<le> 3" by blast
  from 1 mem 2 3 4 show ?thesis by blast
qed

text \<open>
  The claim as stated gives every report of the pipeline a severity breakdown whose High
  count is 0. The report of the web application has no such count: the path to it ends at
  the missing \<open>summary\<close> key, while its findings are the two missing-header findings.
\<close>

theorem web_report_no_high_count_counterexample:
  "map_sum id (\<lambda>r. pyval_path (PDict r) [''summary'', ''severity_breakdown'', ''High''])
      (build_report timeout_world enabled_env example_fetch ''2026-11-03T00:00:00Z''
         ''http://example.test'')
    = Inr None
   \<and> map_sum id (\<lambda>r. pyval_path (PDict r) [''findings''])
      (build_report timeout_world enabled_env example_fetch ''2026-11-03T00:00:00Z''
         ''http://example.test'')
    = Inr (Some (PList [str_dict csp_finding, str_dict xfo_finding]))"
  by code_simp

section \<open>The assembled reports\<close>

text \<open>
  Claim C5, as the code has it. For every header map the fetch returns (a dict, so its
  keys are distinct), the report that \<open>main\<close> assembles has a \<open>headers_sample\<close> of at most
  25 entries, which are the entries of the header map under its 25 smallest keys, in
  sorted key order. The report that \<open>build_report\<close> assembles has a \<open>headers_sample\<close> of at
  most 20 entries (so also at most 25), which are the first 20 entries of the header map
  in the map's own order; they are not sorted.
\<close>

theorem headers_sample_bounded:
  assumes "fetch url = Inr (title, headers)" and "distinct (map fst headers)"
  shows "(\<exists>r sample. main fetch now url = Inr r
            \<and> pyval_path (PDict r) [''headers_sample''] = Some (str_dict sample)
            \<and> length sample \<le> 25 \<and> sorted (map fst sample)
            \<and> map fst sample = take 25 (sort (map fst headers))
            \<and> set sample \<subseteq> set headers)
       \<and> (\<exists>r sample. build_report W env fetch t url = Inr r
            \<and> pyval_path (PDict r) [''headers_sample''] = Some (str_dict sample)
            \<and> length sample \<le> 20 \<and> sample = take 20 headers)"
proof
  from cli_headers_sample [OF assms(2), of url title "run_rule_based_checks headers" now]
  obtain r sample where
    s: "cli_report url title headers (run_rule_based_checks headers) now = Inr r"
       "pyval_path (PDict r) [''headers_sample''] = Some (str_dict sample)"
       "map fst sample = take 25 (sort (map fst headers))"
       "set sample \<subseteq> set headers" by blast
  from s(1) assms(1) have m: "main fetch now url = Inr r" by (simp add: main_fetched)
  from s(3) have "length (map fst sample) \<le> 25" by simp
  then have len: "length sample \<le> 25" by simp
  from s(3) have srt: "sorted (map fst sample)" by (simp add: sorted_take_sort)
  from m s(2,3,4) len srt show "\<exists>r sample. main fetch now url = Inr r
            \<and> pyval_path (PDict r) [''headers_sample''] = Some (str_dict sample)
            \<and> length sample \<le> 25 \<and> sorted (map fst sample)
            \<and> map fst sample = take 25 (sort (map fst headers))
            \<and> set sample \<subseteq> set headers" by blast
next
  from assms(2) have "distinct (map fst (take 20 headers))"
    by (simp add: take_map [symmetric] distinct_take)
  then have d: "dict_of_items (take 20 headers) = take 20 headers"
    by (rule dict_of_items_distinct)
  from build_report_ok [of fetch url title headers W env t, OF assms(1)] obtain es where
    b: "build_report W env fetch t url
          = Inr (web_report env url title headers (run_rule_based_checks headers) es t)"
    by blast
  have "pyval_path (PDict (web_report env url title headers
                             (run_rule_based_checks headers) es t)) [''headers_sample'']
          = Some (str_dict (take 20 headers))"
    by (simp only: web_report_fields d)
  moreover have "length (take 20 headers) \<le> 20" by simp
  ultimately show "\<exists>r sample. build_report W env fetch t url = Inr r
            \<and> pyval_path (PDict r) [''headers_sample''] = Some (str_dict sample)
            \<and> length sample \<le> 20 \<and> sample = take 20 headers"
    using b by blast
qed

theorem headers_sample_bounded_witness:
  "(\<exists>r sample. main example_fetch ''2026-11-03T00:00:00'' ''http://example.test'' = Inr r
       \<and> pyval_path (PDict r) [''headers_sample''] = Some (str_dict sample)
       \<and> length sample \<le> 25 \<and> sorted (map fst sample)
       \<and> map fst sample = take 25 (sort (map fst mixed_case_headers))
       \<and> set sample \<subseteq> set mixed_case_headers)
   \<and> (\<exists>r sample. build_report ok_world enabled_env example_fetch
                     ''2026-11-03T00:00:00Z'' ''http://example.test'' = Inr r
       \<and> pyval_path (PDict r) [''headers_sample''] = Some (str_dict sample)
       \<and> length sample \<le> 20 \<and> sample = take 20 mixed_case_headers)"
proof -
  have f: "example_fetch ''http://example.test'' = Inr (''Example'', mixed_case_headers)"
    by (simp add: example_fetch_def)
  have d: "distinct (map fst mixed_case_headers)"
    by (simp add: mixed_case_headers_def)
  from headers_sample_bounded [of example_fetch, OF f d] show ?thesis .
qed

text \<open>
  The claim as stated also asks for sorted keys in the web application's report. There
  the sample keeps the order of the header map: \<open>Server\<close> comes before \<open>Date\<close>.
\<close>

theorem web_headers_sample_unsorted_counterexample:
  "map_sum id (\<lambda>r. pyval_path (PDict r) [''headers_sample''])
      (build_report ok_world Map.empty example_fetch ''2026-11-03T00:00:00Z''
         ''http://example.test'')
    = Inr (Some (str_dict [(''Server'', ''nginx/1.18''), (''Date'', ''Tue, 03 Nov 2026'')]))
   \<and> \<not> sorted [''Server'', ''Date'']"
  by code_simp

text \<open>
  Claim C6, as the code has it. For every findings list, the empty one included, the
  report assembled by \<open>cli_report\<close> (the report of \<open>main\<close>, which passes it the rule engine's
  findings) carries the findings, \<open>summary.total_findings\<close> equal to their number, and
  \<open>summary.severity_breakdown\<close> equal to the numbers of findings whose severity is High,
  Medium and Low. The report assembled by \<open>build_report\<close> has no \<open>summary\<close> key.
\<close>

theorem severity_breakdown_exact:
  "(\<exists>r. cli_report url title headers findings now = Inr r
       \<and> pyval_path (PDict r) [''findings''] = Some (PList (map str_dict findings))
       \<and> pyval_path (PDict r) [''summary'', ''total_findings'']
           = Some (PInt (int (length findings)))
       \<and> pyval_path (PDict r) [''summary'', ''severity_breakdown''] =
           Some (PDict
             [(''High'', PInt (int (length
                 (filter (\<lambda>f. dict_get f ''severity'' = Some ''High'') findings)))),
              (''Medium'', PInt (int (length
                 (filter (\<lambda>f. dict_get f ''severity'' = Some ''Medium'') findings)))),
              (''Low'', PInt (int (length
                 (filter (\<lambda>f. dict_get f ''severity'' = Some ''Low'') findings))))]))
   \<and> (\<forall>title' headers'. fetch url = Inr (title', headers') \<longrightarrow>
         main fetch now url
           = cli_report url title' headers' (run_rule_based_checks headers') now)
   \<and> (\<forall>r. build_report W env fetch t url = Inr r \<longrightarrow>
         pyval_path (PDict r) [''summary''] = None)"
proof (intro conjI allI impI)
  from cli_report_ok obtain r where r: "cli_report url title headers findings now = Inr r"
    by blast
  from r cli_report_fields(1-3) [OF r]
  show "\<exists>r. cli_report url title headers findings now = Inr r
       \<and> pyval_path (PDict r) [''findings''] = Some (PList (map str_dict findings))
       \<and> pyval_path (PDict r) [''summary'', ''total_findings'']
           = Some (PInt (int (length findings)))
       \<and> pyval_path (PDict r) [''summary'', ''severity_breakdown''] =
           Some (PDict
             [(''High'', PInt (int (length
                 (filter (\<lambda>f. dict_get f ''severity'' = Some ''High'') findings)))),
              (''Medium'', PInt (int (length
                 (filter (\<lambda>f. dict_get f ''severity'' = Some ''Medium'') findings)))),
              (''Low'', PInt (int (length
                 (filter (\<lambda>f. dict_get f ''severity'' = Some ''Low'') findings))))])"
    unfolding count_severity_length by blast
next
  fix title' headers' assume "fetch url = Inr (title', headers')"
  then show "main fetch now url
           = cli_report url title' headers' (run_rule_based_checks headers') now"
    by (rule main_fetched)
next
  fix r assume "build_report W env fetch t url = Inr r"
  from build_report_Inr [OF this] obtain title' headers' es where
    "r = web_report env url title' headers' (run_rule_based_checks headers') es t" by blast
  then show "pyval_path (PDict r) [''summary''] = None"
    by (simp only: web_report_fields)
qed

theorem severity_breakdown_exact_witness:
  "map_sum id (\<lambda>r. pyval_path (PDict r) [''summary'', ''total_findings''])
      (main example_fetch ''2026-11-03T00:00:00'' ''http://example.test'')
     = Inr (Some (PInt 2))
   \<and> map_sum id (\<lambda>r. pyval_path (PDict r) [''summary'', ''severity_breakdown''])
      (main example_fetch ''2026-11-03T00:00:00'' ''http://example.test'')
     = Inr (Some (PDict [(''High'', PInt 0), (''Medium'', PInt 1), (''Low'', PInt 1)]))
   \<and> map_sum id (\<lambda>r. pyval_path (PDict r) [''summary''])
      (build_report ok_world enabled_env example_fetch ''2026-11-03T00:00:00Z''
         ''http://example.test'')
     = Inr None"
proof -
  let ?fs = "run_rule_based_checks mixed_case_headers"
  note t = severity_breakdown_exact
    [of "''http://example.test''" "''Example''" mixed_case_headers ?fs "''2026-11-03T00:00:00''"
        example_fetch ok_world enabled_env "''2026-11-03T00:00:00Z''"]
  have f: "example_fetch ''http://example.test'' = Inr (''Example'', mixed_case_headers)"
    by (simp add: example_fetch_def)
  have n: "int (length ?fs) = 2"
    "int (length (filter (\<lambda>f. dict_get f ''severity'' = Some ''High'') ?fs)) = 0"
    "int (length (filter (\<lambda>f. dict_get f ''severity'' = Some ''Medium'') ?fs)) = 1"
    "int (length (filter (\<lambda>f. dict_get f ''severity'' = Some ''Low'') ?fs)) = 1"
    by code_simp+
  from t f have m: "main example_fetch ''2026-11-03T00:00:00'' ''http://example.test''
      = cli_report ''http://example.test'' ''Example'' mixed_case_headers ?fs
          ''2026-11-03T00:00:00''" by blast
  from t obtain r where
    r: "cli_report ''http://example.test'' ''Example'' mixed_case_headers ?fs
          ''2026-11-03T00:00:00'' = Inr r"
       "pyval_path (PDict r) [''summary'', ''total_findings''] = Some (PInt (int (length ?fs)))"
       "pyval_path (PDict r) [''summary'', ''severity_breakdown''] =
           Some (PDict
             [(''High'', PInt (int (length
                 (filter (\<lambda>f. dict_get f ''severity'' = Some ''High'') ?fs)))),
              (''Medium'', PInt (int (length
                 (filter (\<lambda>f. dict_get f ''severity'' = Some ''Medium'') ?fs)))),
              (''Low'', PInt (int (length
                 (filter (\<lambda>f. dict_get f ''severity'' = Some ''Low'') ?fs))))])"
    by blast
  from build_report_ok [of example_fetch "''http://example.test''" "''Example''"
         mixed_case_headers ok_world enabled_env "''2026-11-03T00:00:00Z''", OF f]
  obtain r' where
    b: "build_report ok_world enabled_env example_fetch ''2026-11-03T00:00:00Z''
          ''http://example.test'' = Inr r'" by blast
  with t have s: "pyval_path (PDict r') [''summary''] = None" by blast
  from m r(1,2) n(1) have 1: "map_sum id
      (\<lambda>r. pyval_path (PDict r) [''summary'', ''total_findings''])
      (main example_fetch ''2026-11-03T00:00:00'' ''http://example.test'')
     = Inr (Some (PInt 2))" by simp
  from m r(1,3) n(2,3,4) have 2: "map_sum id
      (\<lambda>r. pyval_path (PDict r) [''summary'', ''severity_breakdown''])
      (main example_fetch ''2026-11-03T00:00:00'' ''http://example.test'')
     = Inr (Some (PDict [(''High'', PInt 0), (''Medium'', PInt 1), (''Low'', PInt 1)]))"
    by simp
  from b s have 3: "map_sum id (\<lambda>r. pyval_path (PDict r) [''summary''])
      (build_report ok_world enabled_env example_fetch ''2026-11-03T00:00:00Z''
         ''http://example.test'')
     = Inr None" by simp
  from 1 2 3 show ?thesis by blast
qed

text \<open>
  The claim as stated asks for a summary in every assembled report. The report of the
  web application has none.
\<close>

theorem web_report_no_summary_counterexample:
  "map_sum id (\<lambda>r. pyval_path (PDict r) [''summary''])
      (build_report ok_world Map.empty example_fetch ''2026-11-03T00:00:00Z''
         ''http://example.test'')
    = Inr None"
  by code_simp

section \<open>The fallback summary's wording\<close>

text \<open>
  Claim C7, as the code has it. For the empty findings list the fallback summary is the
  no-issues text, which states no counts. For every non-empty findings list the summary
  states the total and the High, Medium and Low counts, and its posture and priority
  follow the highest severity present: "elevated risk" when some finding is High,
  otherwise "moderate risk" when some finding is Medium, otherwise "low-to-moderate
  risk". In particular, for one Medium and one Low finding the summary contains
  "2 issue(s): 0 High, 1 Medium" and "moderate risk".
\<close>

theorem fallback_summary_posture:
  "rule_based_executive_summary url title [] =
     ''A lightweight security review of '' @ url @ '' ('' @ title
     @ '') did not identify obvious baseline security misconfigurations during limited automated checks. This does not guarantee the application is secure, and deeper authenticated testing may still be required.''
   \<and> (findings \<noteq> [] \<longrightarrow>
        rule_based_executive_summary url title findings =
          ''A lightweight security review of '' @ url @ '' ('' @ title @ '') identified ''
          @ str_int (int (length findings)) @ '' issue(s): ''
          @ str_int (count_severity ''High'' findings) @ '' High, ''
          @ str_int (count_severity ''Medium'' findings) @ '' Medium, and ''
          @ str_int (count_severity ''Low'' findings)
          @ '' Low. Overall, the application presents a ''
          @ (if \<exists>f \<in> set findings. dict_get f ''severity'' = Some ''High''
             then ''elevated risk''
             else if \<exists>f \<in> set findings. dict_get f ''severity'' = Some ''Medium''
             then ''moderate risk''
             else ''low-to-moderate risk'')
          @ '' security posture driven primarily by configuration and security header gaps. ''
          @ ''It is recommended to ''
          @ (if \<exists>f \<in> set findings. dict_get f ''severity'' = Some ''High''
             then ''address High severity issues immediately, followed by Medium and Low findings''
             else if \<exists>f \<in> set findings. dict_get f ''severity'' = Some ''Medium''
             then ''remediate Medium severity issues first, then address Low severity hardening gaps''
             else ''resolve Low severity configuration and hardening issues'')
          @ '' and re-test to validate remediation.'')
   \<and> (map (\<lambda>f. dict_get f ''severity'') findings = [Some ''Medium'', Some ''Low'']
        \<or> map (\<lambda>f. dict_get f ''severity'') findings = [Some ''Low'', Some ''Medium'']
        \<longrightarrow> sublist ''2 issue(s): 0 High, 1 Medium''
              (rule_based_executive_summary url title findings)
            \<and> sublist ''moderate risk'' (rule_based_executive_summary url title findings))"
proof (intro conjI impI)
  show "rule_based_executive_summary url title [] =
     ''A lightweight security review of '' @ url @ '' ('' @ title
     @ '') did not identify obvious baseline security misconfigurations during limited automated checks. This does not guarantee the application is secure, and deeper authenticated testing may still be required.''"
    by (rule summary_empty)
next
  assume "findings \<noteq> []"
  then show "rule_based_executive_summary url title findings =
          ''A lightweight security review of '' @ url @ '' ('' @ title @ '') identified ''
          @ str_int (int (length findings)) @ '' issue(s): ''
          @ str_int (count_severity ''High'' findings) @ '' High, ''
          @ str_int (count_severity ''Medium'' findings) @ '' Medium, and ''
          @ str_int (count_severity ''Low'' findings)
          @ '' Low. Overall, the application presents a ''
          @ (if \<exists>f \<in> set findings. dict_get f ''severity'' = Some ''High''
             then ''elevated risk''
             else if \<exists>f \<in> set findings. dict_get f ''severity'' = Some ''Medium''
             then ''moderate risk''
             else ''low-to-moderate risk'')
          @ '' security posture driven primarily by configuration and security header gaps. ''
          @ ''It is recommended to ''
          @ (if \<exists>f \<in> set findings. dict_get f ''severity'' = Some ''High''
             then ''address High severity issues immediately, followed by Medium and Low findings''
             else if \<exists>f \<in> set findings. dict_get f ''severity'' = Some ''Medium''
             then ''remediate Medium severity issues first, then address Low severity hardening gaps''
             else ''resolve Low severity configuration and hardening issues'')
          @ '' and re-test to validate remediation.''"
    by (rule summary_nonempty)
next
  assume a: "map (\<lambda>f. dict_get f ''severity'') findings = [Some ''Medium'', Some ''Low'']
        \<or> map (\<lambda>f. dict_get f ''severity'') findings = [Some ''Low'', Some ''Medium'']"
  from medium_low_sublists(1) [OF a]
  show "sublist ''2 issue(s): 0 High, 1 Medium''
          (rule_based_executive_summary url title findings)" .
next
  assume a: "map (\<lambda>f. dict_get f ''severity'') findings = [Some ''Medium'', Some ''Low'']
        \<or> map (\<lambda>f. dict_get f ''severity'') findings = [Some ''Low'', Some ''Medium'']"
  from medium_low_sublists(2) [OF a]
  show "sublist ''moderate risk'' (rule_based_executive_summary url title findings)" .
qed

theorem fallback_summary_posture_witness:
  "run_rule_based_checks [] \<noteq> []
   \<and> map (\<lambda>f. dict_get f ''severity'') (run_rule_based_checks [])
       = [Some ''Medium'', Some ''Low'']
   \<and> sublist ''2 issue(s): 0 High, 1 Medium''
        (rule_based_executive_summary ''http://example.test'' ''Example''
           (run_rule_based_checks []))
   \<and> sublist ''moderate risk''
        (rule_based_executive_summary ''http://example.test'' ''Example''
           (run_rule_based_checks []))"
proof -
  have ne: "run_rule_based_checks [] \<noteq> []" by code_simp
  have sev: "map (\<lambda>f. dict_get f ''severity'') (run_rule_based_checks [])
               = [Some ''Medium'', Some ''Low'']" by code_simp
  from fallback_summary_posture
         [of "''http://example.test''" "''Example''" "run_rule_based_checks []"] ne sev
  show ?thesis by blast
qed

text \<open>
  The claim as stated has the summary state the counts for every findings list. For the
  empty list the text contains no digit at all, so it states no count.
\<close>

theorem empty_summary_no_counts_counterexample:
  "set (rule_based_executive_summary ''u'' ''t'' []) \<inter> set ''0123456789'' = {}
   \<and> \<not> sublist ''0 High'' (rule_based_executive_summary ''u'' ''t'' [])"
  by code_simp

section \<open>The recorded mode\<close>

text \<open>
  Claim C8, as the code has it. In every report that \<open>build_report\<close> assembles,
  \<open>meta.mode\<close> is a function of the environment alone, whatever the external service
  does: "AI-assisted (LLM enabled)" when the capability is enabled and "Rule-based (LLM
  disabled)" otherwise. When the capability is enabled and the attempt raises, the
  report's \<open>executive_summary\<close> is the fallback text and \<open>meta.mode\<close> still says enabled.
  The report that \<open>main\<close> assembles has neither \<open>meta.mode\<close> nor \<open>executive_summary\<close>.
\<close>

theorem report_mode_configured:
  "(\<forall>r. build_report W env fetch t url = Inr r \<longrightarrow>
       pyval_path (PDict r) [''meta'', ''mode'']
         = Some (PStr (if llm_enabled env then ''AI-assisted (LLM enabled)''
                       else ''Rule-based (LLM disabled)'')))
   \<and> (\<forall>title headers e.
         fetch url = Inr (title, headers) \<and> llm_enabled env
         \<and> fst (llm_attempt W env url title (run_rule_based_checks headers)
                  (rule_based_executive_summary url title (run_rule_based_checks headers)))
             = Inl e
         \<longrightarrow> (\<exists>r. build_report W env fetch t url = Inr r
                \<and> pyval_path (PDict r) [''executive_summary'']
                    = Some (PStr (rule_based_executive_summary url title
                                    (run_rule_based_checks headers)))
                \<and> pyval_path (PDict r) [''meta'', ''mode'']
                    = Some (PStr ''AI-assisted (LLM enabled)'')))
   \<and> (\<forall>r. main fetch now url = Inr r \<longrightarrow>
         pyval_path (PDict r) [''meta'', ''mode''] = None
         \<and> pyval_path (PDict r) [''executive_summary''] = None)"
proof (intro conjI allI impI)
  fix r assume "build_report W env fetch t url = Inr r"
  from build_report_Inr [OF this] obtain title' headers' es where
    "r = web_report env url title' headers' (run_rule_based_checks headers') es t" by blast
  then show "pyval_path (PDict r) [''meta'', ''mode'']
         = Some (PStr (if llm_enabled env then ''AI-assisted (LLM enabled)''
                       else ''Rule-based (LLM disabled)''))"
    by (simp only: web_report_fields llm_mode_string_def)
next
  fix title headers e
  assume a: "fetch url = Inr (title, headers) \<and> llm_enabled env
         \<and> fst (llm_attempt W env url title (run_rule_based_checks headers)
                  (rule_based_executive_summary url title (run_rule_based_checks headers)))
             = Inl e"
  then have g: "fst (generate_executive_summary W env url title (run_rule_based_checks headers))
                  = Inr (rule_based_executive_summary url title (run_rule_based_checks headers))"
    by (intro generate_failed_attempt) auto
  from a have f: "fetch url = Inr (title, headers)" by simp
  have b: "build_report W env fetch t url
             = Inr (web_report env url title headers (run_rule_based_checks headers)
                      (rule_based_executive_summary url title (run_rule_based_checks headers)) t)"
    using f g by (rule build_report_fetched)
  from a show "\<exists>r. build_report W env fetch t url = Inr r
                \<and> pyval_path (PDict r) [''executive_summary'']
                    = Some (PStr (rule_based_executive_summary url title
                                    (run_rule_based_checks headers)))
                \<and> pyval_path (PDict r) [''meta'', ''mode'']
                    = Some (PStr ''AI-assisted (LLM enabled)'')"
    unfolding b
    by (simp only: web_report_fields llm_mode_string_def if_True simp_thms sum.inject)
next
  fix r assume "main fetch now url = Inr r"
  from main_Inr [OF this] obtain title headers where
    r: "cli_report url title headers (run_rule_based_checks headers) now = Inr r" by blast
  from cli_report_fields(4) [OF r]
  show "pyval_path (PDict r) [''meta'', ''mode''] = None" .
next
  fix r assume "main fetch now url = Inr r"
  from main_Inr [OF this] obtain title headers where
    r: "cli_report url title headers (run_rule_based_checks headers) now = Inr r" by blast
  from cli_report_fields(5) [OF r]
  show "pyval_path (PDict r) [''executive_summary''] = None" .
qed

theorem report_mode_configured_witness:
  "map_sum id (\<lambda>r. pyval_path (PDict r) [''executive_summary''])
      (build_report timeout_world enabled_env example_fetch ''2026-11-03T00:00:00Z''
         ''http://example.test'')
     = Inr (Some (PStr (rule_based_executive_summary ''http://example.test'' ''Example''
                          (run_rule_based_checks mixed_case_headers))))
   \<and> map_sum id (\<lambda>r. pyval_path (PDict r) [''meta'', ''mode''])
      (build_report timeout_world enabled_env example_fetch ''2026-11-03T00:00:00Z''
         ''http://example.test'')
     = Inr (Some (PStr ''AI-assisted (LLM enabled)''))
   \<and> map_sum id (\<lambda>r. pyval_path (PDict r) [''meta'', ''mode''])
      (main example_fetch ''2026-11-03T00:00:00'' ''http://example.test'')
     = Inr None"
proof -
  note t = report_mode_configured
    [of timeout_world enabled_env example_fetch "''2026-11-03T00:00:00Z''"
        "''http://example.test''" "''2026-11-03T00:00:00''"]
  have f: "example_fetch ''http://example.test'' = Inr (''Example'', mixed_case_headers)"
    by (simp add: example_fetch_def)
  have on: "llm_enabled enabled_env" by code_simp
  have fails: "fst (llm_attempt timeout_world enabled_env ''http://example.test'' ''Example''
                 (run_rule_based_checks mixed_case_headers)
                 (rule_based_executive_summary ''http://example.test'' ''Example''
                    (run_rule_based_checks mixed_case_headers)))
               = Inl (Exception ''APITimeoutError'')"
    by code_simp
  from t f on fails obtain r where
    r: "build_report timeout_world enabled_env example_fetch ''2026-11-03T00:00:00Z''
          ''http://example.test'' = Inr r"
       "pyval_path (PDict r) [''executive_summary'']
          = Some (PStr (rule_based_executive_summary ''http://example.test'' ''Example''
                          (run_rule_based_checks mixed_case_headers)))"
       "pyval_path (PDict r) [''meta'', ''mode''] = Some (PStr ''AI-assisted (LLM enabled)'')"
    by blast
  from main_fetched [of example_fetch "''http://example.test''" "''Example''"
         mixed_case_headers "''2026-11-03T00:00:00''", OF f] cli_report_ok
  obtain r' where
    m: "main example_fetch ''2026-11-03T00:00:00'' ''http://example.test'' = Inr r'"
    by metis
  with t have n: "pyval_path (PDict r') [''meta'', ''mode''] = None" by blast
  from r m n show ?thesis by simp
qed

text \<open>
  The claim as stated asks for a mode string in every assembled report. The report of the
  command-line tool has none.
\<close>

theorem cli_report_no_mode_counterexample:
  "map_sum id (\<lambda>r. pyval_path (PDict r) [''meta'', ''mode''])
      (main example_fetch ''2026-11-03T00:00:00'' ''http://example.test'')
    = Inr None
   \<and> map_sum id (\<lambda>r. pyval_path (PDict r) [''meta''])
      (main example_fetch ''2026-11-03T00:00:00'' ''http://example.test'')
    = Inr (Some (PDict [(''tool'', PStr ''WebSentry AI''), (''version'', PStr ''0.1.0''),
                        (''scanned_at'', PStr ''2026-11-03T00:00:00Z'')]))"
  by code_simp

end
